theory Spec2Isabelle
  imports Main "HOL-Library.Sublist" "HOL-Library.Word"
begin

section \<open>Values of the payload\<close>

text \<open>
  The handler passes to \<open>trigger_openhab_if_match\<close> whatever \<open>json.loads\<close> returns, and
  the parameter is annotated \<open>Dict[str, Any]\<close>: the values under the keys are arbitrary
  JSON. A dictionary is an association list read with \<open>map_of\<close> (the first binding of a
  key is the value of the key). No statement of the source inspects a number, so the
  representation of numbers is a type parameter.
\<close>

datatype 'n json =
    JNull
  | JBool bool
  | JNum 'n
  | JStr string
  | JArr "'n json list"
  | JObj "(string \<times> 'n json) list"

section \<open>Exceptions and responses\<close>

record response =
  status_code :: nat
  resp_text :: string

datatype request_error = HTTPError | ConnectionError | Timeout | OtherRequestError

text \<open>
  \<open>RequestException k r\<close> stands for the instances of
  \<open>requests.exceptions.RequestException\<close>, with the class \<open>k\<close> and the attribute
  \<open>response\<close> (\<open>None\<close> when the exception carries no response).
\<close>

datatype exn =
    AttributeError string
  | TypeError string
  | KeyError string
  | ValueError string
  | RequestException request_error "response option"

section \<open>The operations of Python the source uses\<close>

text \<open>\<open>obj.get(key, default)\<close>: only a dictionary has the method.\<close>

definition dict_get :: "'n json \<Rightarrow> string \<Rightarrow> 'n json \<Rightarrow> exn + 'n json" where
  "dict_get obj key dflt =
     (case obj of
        JObj kvs \<Rightarrow> Inr (case map_of kvs key of None \<Rightarrow> dflt | Some v \<Rightarrow> v)
      | _ \<Rightarrow> Inl (AttributeError ''get''))"

text \<open>\<open>obj[key]\<close> with a string key.\<close>

definition getitem :: "'n json \<Rightarrow> string \<Rightarrow> exn + 'n json" where
  "getitem obj key =
     (case obj of
        JObj kvs \<Rightarrow> (case map_of kvs key of None \<Rightarrow> Inl (KeyError key) | Some v \<Rightarrow> Inr v)
      | _ \<Rightarrow> Inl (TypeError ''subscript''))"

text \<open>
  \<open>key in container\<close> for a string \<open>key\<close>: a key of a dictionary, an element of a list,
  a substring of a string; \<open>None\<close>, booleans and numbers are not iterable.
\<close>

definition py_in :: "string \<Rightarrow> 'n json \<Rightarrow> exn + bool" where
  "py_in key container =
     (case container of
        JObj kvs \<Rightarrow> Inr (map_of kvs key \<noteq> None)
      | JArr xs \<Rightarrow> Inr (JStr key \<in> set xs)
      | JStr s \<Rightarrow> Inr (sublist key s)
      | _ \<Rightarrow> Inl (TypeError ''not iterable''))"

section \<open>The clock\<close>

text \<open>
  The value of \<open>datetime.now(timezone.utc)\<close>, and \<open>isoformat()\<close> of an aware datetime
  whose offset is zero: \<open>YYYY-MM-DDTHH:MM:SS[.ffffff]+00:00\<close>, the fraction left out when
  the microsecond is zero. \<open>digits w n\<close> is \<open>n\<close> in \<open>w\<close> decimal digits, zero-padded; the
  fields of a datetime fit their widths.
\<close>

record datetime =
  year :: nat
  month :: nat
  day :: nat
  hour :: nat
  minute :: nat
  second :: nat
  microsecond :: nat

fun digits :: "nat \<Rightarrow> nat \<Rightarrow> string" where
  "digits 0 n = []"
| "digits (Suc w) n = digits w (n div 10) @ [''0123456789'' ! (n mod 10)]"

definition isoformat :: "datetime \<Rightarrow> string" where
  "isoformat d =
     digits 4 (year d) @ ''-'' @ digits 2 (month d) @ ''-'' @ digits 2 (day d) @ ''T'' @
     digits 2 (hour d) @ '':'' @ digits 2 (minute d) @ '':'' @ digits 2 (second d) @
     (if microsecond d = 0 then [] else ''.'' @ digits 6 (microsecond d)) @ ''+00:00''"

section \<open>The outbound call\<close>

record request =
  url :: string
  data :: string
  headers :: "(string \<times> string) list"
  timeout :: nat

text \<open>
  The world of one invocation: the reading of the clock, and what \<open>requests.post\<close> does
  with a request (a response, or an exception).
\<close>

record env =
  now :: datetime
  post :: "request \<Rightarrow> exn + response"

text \<open>\<open>Response.raise_for_status()\<close> of the requests library: an \<open>HTTPError\<close> holding the
  response for the client and server error statuses, nothing otherwise.\<close>

definition raise_for_status :: "response \<Rightarrow> exn + unit" where
  "raise_for_status r =
     (if 400 \<le> status_code r \<and> status_code r < 600
      then Inl (RequestException HTTPError (Some r)) else Inr ())"

section \<open>What is printed\<close>

text \<open>Each \<open>print\<close> of the source is a constructor holding the values it interpolates.\<close>

datatype 'n log_line =
    ThreadStateMismatch "'n json" string
  | EventTypeNotFound string
  | Triggered string string
  | ErrorTriggering exn
  | ResponseStatus nat
  | ResponseBody string
  | ItemTriggered string
  | NoMatch
  | ErrorProcessing exn

text \<open>The result of a call: the value returned or the exception raised, the lines printed,
  and the requests handed to \<open>requests.post\<close>, in order.\<close>

record ('n, 'a) outcome =
  result :: "exn + 'a"
  log :: "'n log_line list"
  posts :: "request list"

section \<open>trigger\_openhab\_if\_match\<close>

text \<open>
  The body of the function is modelled in two parts, composed below. \<open>matches\<close> is lines 32
  to 42, the two checks the specification calls the matcher: \<open>Inr False\<close> is an early
  \<open>return False\<close>, \<open>Inr True\<close> reaches the \<open>try\<close> statement, \<open>Inl\<close> is an exception raised by
  one of the lookups. The second component is what the checks print.
\<close>

definition matches :: "'n json \<Rightarrow> string \<Rightarrow> string \<Rightarrow> (exn + bool) \<times> 'n log_line list" where
  "matches message event_type thread_state =
     (case dict_get message ''eventThreadState'' JNull of
        Inl e \<Rightarrow> (Inl e, [])
      | Inr state \<Rightarrow>
          if state \<noteq> JStr thread_state
          then (Inr False, [ThreadStateMismatch state thread_state])
          else
            (case dict_get message ''resourceUpdate'' (JObj []) of
               Inl e \<Rightarrow> (Inl e, [])
             | Inr resource_update \<Rightarrow>
                 (case dict_get resource_update ''events'' (JObj []) of
                    Inl e \<Rightarrow> (Inl e, [])
                  | Inr events \<Rightarrow>
                      (case py_in event_type events of
                         Inl e \<Rightarrow> (Inl e, [])
                       | Inr found \<Rightarrow>
                           if \<not> found then (Inr False, [EventTypeNotFound event_type])
                           else (Inr True, [])))))"

text \<open>Lines 53 to 62: the headers, with \<open>if openhab_token:\<close> (neither \<open>None\<close> nor empty).\<close>

definition make_headers :: "string option \<Rightarrow> (string \<times> string) list" where
  "make_headers openhab_token =
     [(''Content-Type'', ''text/plain''),
      (''Accept'', ''application/json''),
      (''CF-Access-Client-Id'', ''''),
      (''CF-Access-Client-Secret'', '''')] @
     (case openhab_token of
        None \<Rightarrow> []
      | Some t \<Rightarrow> if t = [] then [] else [(''Authorization'', ''Bearer '' @ t)])"

text \<open>Lines 47 to 70: the request handed to \<open>requests.post\<close>.\<close>

definition make_request :: "env \<Rightarrow> string \<Rightarrow> string \<Rightarrow> string option \<Rightarrow> request" where
  "make_request w openhab_url openhab_item openhab_token =
     \<lparr>url = openhab_url @ ''/rest/items/'' @ openhab_item,
      data = isoformat (now w),
      headers = make_headers openhab_token,
      timeout = 10\<rparr>"

text \<open>Lines 77 to 82: the handler of \<open>RequestException\<close> prints and re-raises; another
  exception leaves the \<open>try\<close> statement untouched.\<close>

definition on_exception :: "exn \<Rightarrow> 'n log_line list" where
  "on_exception e =
     (case e of
        RequestException k r \<Rightarrow>
          ErrorTriggering e #
          (case r of
             None \<Rightarrow> []
           | Some resp \<Rightarrow> [ResponseStatus (status_code resp), ResponseBody (resp_text resp)])
      | _ \<Rightarrow> [])"

text \<open>Lines 45 to 82, the \<open>try\<close> statement (the specification's notifier): one call of
  \<open>requests.post\<close>, then \<open>raise_for_status\<close>.\<close>

definition notify :: "env \<Rightarrow> string \<Rightarrow> string \<Rightarrow> string option \<Rightarrow> ('n, bool) outcome" where
  "notify w openhab_url openhab_item openhab_token =
     (let req = make_request w openhab_url openhab_item openhab_token in
      case post w req of
        Inl e \<Rightarrow> \<lparr>result = Inl e, log = on_exception e, posts = [req]\<rparr>
      | Inr resp \<Rightarrow>
          (case raise_for_status resp of
             Inl e \<Rightarrow> \<lparr>result = Inl e, log = on_exception e, posts = [req]\<rparr>
           | Inr _ \<Rightarrow>
               \<lparr>result = Inr True, log = [Triggered openhab_item (data req)],
                posts = [req]\<rparr>))"

definition trigger_openhab_if_match ::
  "env \<Rightarrow> 'n json \<Rightarrow> string \<Rightarrow> string \<Rightarrow> string option \<Rightarrow> string \<Rightarrow> string \<Rightarrow> ('n, bool) outcome" where
  "trigger_openhab_if_match w message openhab_url openhab_item openhab_token event_type thread_state =
     (case matches message event_type thread_state of
        (Inl e, printed) \<Rightarrow> \<lparr>result = Inl e, log = printed, posts = []\<rparr>
      | (Inr False, printed) \<Rightarrow> \<lparr>result = Inr False, log = printed, posts = []\<rparr>
      | (Inr True, printed) \<Rightarrow>
          (let r = notify w openhab_url openhab_item openhab_token
           in r\<lparr>log := printed @ log r\<rparr>))"

text \<open>The default arguments of the signature.\<close>

definition default_item :: string where
  "default_item = ''CameraPersonDetected''"

definition default_event_type :: string where
  "default_event_type = ''sdm.devices.events.CameraPerson.Person''"

definition default_thread_state :: string where
  "default_thread_state = ''STARTED''"

section \<open>handle\_camera\_event\_pubsub\<close>

type_synonym bytes = "8 word list"

text \<open>The decoders of the standard library the handler calls, each returning its value or
  the exception it raises.\<close>

record 'n codec =
  b64decode :: "'n json \<Rightarrow> exn + bytes"
  bytes_decode :: "bytes \<Rightarrow> exn + string"
  json_loads :: "string \<Rightarrow> exn + 'n json"

text \<open>Lines 101 and 102, from \<open>cloud_event.data\<close> to \<open>message_json\<close>.\<close>

definition decode_message :: "'n codec \<Rightarrow> 'n json \<Rightarrow> exn + 'n json" where
  "decode_message lib event_data =
     (case getitem event_data ''message'' of
        Inl e \<Rightarrow> Inl e
      | Inr m \<Rightarrow>
          (case getitem m ''data'' of
             Inl e \<Rightarrow> Inl e
           | Inr d \<Rightarrow>
               (case b64decode lib d of
                  Inl e \<Rightarrow> Inl e
                | Inr raw \<Rightarrow>
                    (case bytes_decode lib raw of
                       Inl e \<Rightarrow> Inl e
                     | Inr message_data \<Rightarrow> json_loads lib message_data))))"

definition handle_camera_event_pubsub :: "env \<Rightarrow> 'n codec \<Rightarrow> 'n json \<Rightarrow> ('n, unit) outcome" where
  "handle_camera_event_pubsub w lib event_data =
     (let openhab_url = ''https://openhab.local'';
          openhab_item = ''CameraPersonDetected'';
          openhab_token = Some ''''
      in case decode_message lib event_data of
           Inl e \<Rightarrow> \<lparr>result = Inl e, log = [ErrorProcessing e], posts = []\<rparr>
         | Inr message_json \<Rightarrow>
             (let r = trigger_openhab_if_match w message_json openhab_url openhab_item
                        openhab_token default_event_type default_thread_state
              in case result r of
                   Inl e \<Rightarrow> \<lparr>result = Inl e, log = log r @ [ErrorProcessing e], posts = posts r\<rparr>
                 | Inr success \<Rightarrow>
                     \<lparr>result = Inr (),
                      log = log r @ [if success then ItemTriggered openhab_item else NoMatch],
                      posts = posts r\<rparr>))"

section \<open>The match conditions as the specification words them\<close>

text \<open>
  The specification's data model: an event is a mapping with a field \<open>eventThreadState\<close>
  and a mapping \<open>resourceUpdate.events\<close> whose keys are the event types, a missing
  \<open>resourceUpdate\<close> or \<open>events\<close> standing for the empty mapping. \<open>events_of\<close> is that
  mapping, and \<open>None\<close> when one of the two fields holds something that is not a mapping.
\<close>

definition thread_state_is :: "(string \<times> 'n json) list \<Rightarrow> string \<Rightarrow> bool" where
  "thread_state_is m thread_state \<longleftrightarrow> map_of m ''eventThreadState'' = Some (JStr thread_state)"

definition events_of :: "(string \<times> 'n json) list \<Rightarrow> (string \<times> 'n json) list option" where
  "events_of m =
     (case map_of m ''resourceUpdate'' of
        None \<Rightarrow> Some []
      | Some (JObj ru) \<Rightarrow>
          (case map_of ru ''events'' of
             None \<Rightarrow> Some []
           | Some (JObj ev) \<Rightarrow> Some ev
           | Some _ \<Rightarrow> None)
      | Some _ \<Rightarrow> None)"

definition event_type_present :: "(string \<times> 'n json) list \<Rightarrow> string \<Rightarrow> bool" where
  "event_type_present m event_type \<longleftrightarrow>
     (case events_of m of None \<Rightarrow> False | Some ev \<Rightarrow> event_type \<in> dom (map_of ev))"

definition event_shaped :: "(string \<times> 'n json) list \<Rightarrow> bool" where
  "event_shaped m \<longleftrightarrow> events_of m \<noteq> None"

section \<open>Concrete inputs\<close>

text \<open>A collaborator that returns a value, and one that raises.\<close>

definition yielding :: "'b \<Rightarrow> 'a \<Rightarrow> exn + 'b" where
  "yielding v x = Inr v"

definition failing :: "exn \<Rightarrow> 'a \<Rightarrow> exn + 'b" where
  "failing e x = Inl e"

definition sample_clock :: datetime where
  "sample_clock =
     \<lparr>year = 2026, month = 11, day = 4, hour = 8, minute = 41, second = 5, microsecond = 0\<rparr>"

text \<open>The matching scenario of the specification, with a timestamp of its own.\<close>

definition person_started :: "(string \<times> nat json) list" where
  "person_started =
     [(''eventThreadState'', JStr ''STARTED''),
      (''timestamp'', JStr ''2019-01-01T00:00:01Z''),
      (''resourceUpdate'',
         JObj [(''events'', JObj [(''sdm.devices.events.CameraPerson.Person'', JObj [])])])]"

text \<open>\<open>{"eventThreadState": "STARTED", "resourceUpdate": {"events":
  ["sdm.devices.events.CameraPerson.Person"]}}\<close>\<close>

definition events_as_array :: "(string \<times> nat json) list" where
  "events_as_array =
     [(''eventThreadState'', JStr ''STARTED''),
      (''resourceUpdate'',
         JObj [(''events'', JArr [JStr ''sdm.devices.events.CameraPerson.Person''])])]"

text \<open>\<open>{"eventThreadState": "STARTED", "resourceUpdate": null}\<close>\<close>

definition resource_update_null :: "(string \<times> nat json) list" where
  "resource_update_null =
     [(''eventThreadState'', JStr ''STARTED''), (''resourceUpdate'', JNull)]"

text \<open>\<open>{"eventThreadState": "STARTED"}\<close> and
  \<open>{"eventThreadState": "STARTED", "resourceUpdate": {"name": "enterprises/e/devices/d"}}\<close>\<close>

definition no_resource_update :: "(string \<times> nat json) list" where
  "no_resource_update = [(''eventThreadState'', JStr ''STARTED'')]"

definition no_events :: "(string \<times> nat json) list" where
  "no_events =
     [(''eventThreadState'', JStr ''STARTED''),
      (''resourceUpdate'', JObj [(''name'', JStr ''enterprises/e/devices/d'')])]"

definition world_of :: "(request \<Rightarrow> exn + response) \<Rightarrow> env" where
  "world_of p = \<lparr>now = sample_clock, post = p\<rparr>"

text \<open>The request for the base URL \<open>http://openhab.local:8080\<close>, the item
  \<open>CameraPersonDetected\<close>, no token and the sample clock; and the one of the Pub/Sub handler.\<close>

definition expected_request :: request where
  "expected_request =
     \<lparr>url = ''http://openhab.local:8080/rest/items/CameraPersonDetected'',
      data = ''2026-11-04T08:41:05+00:00'',
      headers = [(''Content-Type'', ''text/plain''), (''Accept'', ''application/json''),
                 (''CF-Access-Client-Id'', ''''), (''CF-Access-Client-Secret'', '''')],
      timeout = 10\<rparr>"

definition handler_request :: request where
  "handler_request =
     \<lparr>url = ''https://openhab.local/rest/items/CameraPersonDetected'',
      data = ''2026-11-04T08:41:05+00:00'',
      headers = [(''Content-Type'', ''text/plain''), (''Accept'', ''application/json''),
                 (''CF-Access-Client-Id'', ''''), (''CF-Access-Client-Secret'', '''')],
      timeout = 10\<rparr>"

text \<open>A Pub/Sub envelope, and three decoders: one whose base64 step fails, one whose JSON
  step fails, one that decodes the envelope to the matching scenario.\<close>

definition sample_envelope :: "nat json" where
  "sample_envelope = JObj [(''message'', JObj [(''data'', JStr ''eyJ9'')])]"

definition bad_base64 :: "nat codec" where
  "bad_base64 =
     \<lparr>b64decode = failing (ValueError ''Incorrect padding''),
      bytes_decode = yielding ''{}'',
      json_loads = yielding (JObj [])\<rparr>"

definition bad_json :: "nat codec" where
  "bad_json =
     \<lparr>b64decode = yielding [],
      bytes_decode = yielding ''{'',
      json_loads = failing (ValueError ''Expecting property name enclosed in double quotes'')\<rparr>"

definition good_codec :: "nat codec" where
  "good_codec =
     \<lparr>b64decode = yielding [],
      bytes_decode = yielding ''{}'',
      json_loads = yielding (JObj person_started)\<rparr>"

section \<open>Facts about the model\<close>

lemma matches_obj:
  "matches (JObj m) et ts =
     (if map_of m ''eventThreadState'' \<noteq> Some (JStr ts)
      then (Inr False,
            [ThreadStateMismatch
               (case map_of m ''eventThreadState'' of None \<Rightarrow> JNull | Some v \<Rightarrow> v) ts])
      else case dict_get (case map_of m ''resourceUpdate'' of None \<Rightarrow> JObj [] | Some v \<Rightarrow> v)
                  ''events'' (JObj []) of
             Inl e \<Rightarrow> (Inl e, [])
           | Inr events \<Rightarrow>
               (case py_in et events of
                  Inl e \<Rightarrow> (Inl e, [])
                | Inr found \<Rightarrow>
                    if found then (Inr True, []) else (Inr False, [EventTypeNotFound et])))"
  by (auto simp: matches_def dict_get_def split: option.splits sum.splits)

lemma py_in_obj: "py_in k (JObj kvs) = Inr (k \<in> dom (map_of kvs))"
  by (simp add: py_in_def domIff)

lemma matches_shaped:
  assumes "events_of m = Some ev"
  shows "matches (JObj m) et ts =
     (if \<not> thread_state_is m ts
      then (Inr False,
            [ThreadStateMismatch
               (case map_of m ''eventThreadState'' of None \<Rightarrow> JNull | Some v \<Rightarrow> v) ts])
      else if et \<in> dom (map_of ev) then (Inr True, [])
      else (Inr False, [EventTypeNotFound et]))"
  using assms
  by (auto simp: matches_obj thread_state_is_def events_of_def dict_get_def py_in_obj
      split: option.splits json.splits)

lemma matches_both:
  "thread_state_is m ts \<Longrightarrow> event_type_present m et \<Longrightarrow>
   matches (JObj m) et ts = (Inr True, [])"
  by (auto simp: event_type_present_def matches_shaped split: option.splits)

lemma trigger_both:
  "thread_state_is m ts \<Longrightarrow> event_type_present m et \<Longrightarrow>
   trigger_openhab_if_match w (JObj m) u i t et ts = notify w u i t"
  by (simp add: trigger_openhab_if_match_def matches_both)

lemma posts_notify: "posts (notify w u i t :: ('n, bool) outcome) = [make_request w u i t]"
  by (simp add: notify_def Let_def split: sum.splits)

lemma posts_trigger:
  "posts (trigger_openhab_if_match w msg u i t et ts) =
     (if fst (matches msg et ts) = Inr True then [make_request w u i t] else [])"
  by (auto simp: trigger_openhab_if_match_def posts_notify Let_def
      split: prod.splits sum.splits bool.splits)

lemma digits_numeral:
  "digits (numeral k) n = digits (pred_numeral k) (n div 10) @ [''0123456789'' ! (n mod 10)]"
  by (simp only: numeral_eq_Suc [of k] digits.simps)

lemma isoformat_sample_clock: "isoformat sample_clock = ''2026-11-04T08:41:05+00:00''"
  by (simp add: isoformat_def sample_clock_def digits_numeral)

lemma trigger_no_match:
  "fst (matches msg et ts) = Inr False \<Longrightarrow>
   result (trigger_openhab_if_match w msg u i t et ts) = Inr False
   \<and> posts (trigger_openhab_if_match w msg u i t et ts) = []"
  by (auto simp: trigger_openhab_if_match_def split: prod.splits sum.splits bool.splits)

lemma notify_response:
  "post w (make_request w u i t) = Inr resp \<Longrightarrow>
   notify w u i t =
     (if 400 \<le> status_code resp \<and> status_code resp < 600
      then \<lparr>result = Inl (RequestException HTTPError (Some resp)),
            log = [ErrorTriggering (RequestException HTTPError (Some resp)),
                   ResponseStatus (status_code resp), ResponseBody (resp_text resp)],
            posts = [make_request w u i t]\<rparr>
      else \<lparr>result = Inr True, log = [Triggered i (isoformat (now w))],
            posts = [make_request w u i t]\<rparr>)"
  by (simp add: notify_def raise_for_status_def on_exception_def make_request_def)

lemma notify_raise:
  "post w (make_request w u i t) = Inl e \<Longrightarrow>
   notify w u i t = \<lparr>result = Inl e, log = on_exception e, posts = [make_request w u i t]\<rparr>"
  by (simp add: notify_def)

lemma posts_handle:
  "posts (handle_camera_event_pubsub w lib ev) =
     (case decode_message lib ev of
        Inl e \<Rightarrow> []
      | Inr msg \<Rightarrow>
          posts (trigger_openhab_if_match w msg ''https://openhab.local'' ''CameraPersonDetected''
                   (Some '''') default_event_type default_thread_state))"
  by (simp add: handle_camera_event_pubsub_def Let_def split: sum.splits)

lemma trigger_sample:
  "thread_state_is person_started ''STARTED''
   \<and> event_type_present person_started ''sdm.devices.events.CameraPerson.Person''"
  by (simp add: thread_state_is_def event_type_present_def events_of_def person_started_def)

lemma make_request_sample:
  "make_request (world_of p) ''http://openhab.local:8080'' ''CameraPersonDetected'' None
     = expected_request"
  by (simp add: make_request_def make_headers_def world_of_def expected_request_def
      isoformat_sample_clock)

lemma posts_sample:
  "posts (trigger_openhab_if_match (world_of p) (JObj person_started) ''http://openhab.local:8080''
      ''CameraPersonDetected'' None ''sdm.devices.events.CameraPerson.Person'' ''STARTED'')
     = [expected_request]"
  by (simp add: posts_trigger matches_both trigger_sample make_request_sample)

lemma decode_good: "decode_message good_codec sample_envelope = Inr (JObj person_started)"
  by (simp add: decode_message_def getitem_def good_codec_def sample_envelope_def yielding_def)

lemma posts_handle_sample:
  "posts (handle_camera_event_pubsub (world_of p) good_codec sample_envelope) = [handler_request]"
  by (simp add: posts_handle decode_good posts_trigger default_event_type_def
      default_thread_state_def matches_both trigger_sample make_request_def make_headers_def
      world_of_def handler_request_def isoformat_sample_clock)

lemma authorization_in_headers:
  "''Authorization'' \<in> fst ` set (make_headers t) \<longleftrightarrow> t \<noteq> None \<and> t \<noteq> Some []"
  by (cases t) (simp_all add: make_headers_def)

section \<open>The claims of the specification\<close>

text \<open>
  C1 (as amended). On an event whose \<open>resourceUpdate\<close> field, and the \<open>events\<close> field inside it,
  are each missing or a mapping, a POST is issued if and only if \<open>eventThreadState\<close> equals the
  expected thread state and the expected event type is a key of \<open>resourceUpdate.events\<close>.
  Whenever both conditions hold exactly one POST is issued, and no invocation, on any message,
  issues more than one.
\<close>

theorem trigger_posts_iff_match:
  "(event_shaped m \<longrightarrow>
      (posts (trigger_openhab_if_match w (JObj m) u i t et ts) \<noteq> [] \<longleftrightarrow>
         thread_state_is m ts \<and> event_type_present m et))
   \<and> (thread_state_is m ts \<and> event_type_present m et \<longrightarrow>
        posts (trigger_openhab_if_match w (JObj m) u i t et ts) = [make_request w u i t])
   \<and> length (posts (trigger_openhab_if_match w msg u i t et ts)) \<le> 1"
proof (intro conjI impI)
  assume "event_shaped m"
  then obtain ev where ev: "events_of m = Some ev"
    by (auto simp: event_shaped_def)
  show "posts (trigger_openhab_if_match w (JObj m) u i t et ts) \<noteq> [] \<longleftrightarrow>
          thread_state_is m ts \<and> event_type_present m et"
    by (simp add: posts_trigger matches_shaped [OF ev] event_type_present_def ev)
next
  assume "thread_state_is m ts \<and> event_type_present m et"
  then show "posts (trigger_openhab_if_match w (JObj m) u i t et ts) = [make_request w u i t]"
    by (simp add: posts_trigger matches_both)
next
  show "length (posts (trigger_openhab_if_match w msg u i t et ts)) \<le> 1"
    by (simp add: posts_trigger)
qed

text \<open>
  C1 at the matching scenario of the specification: the event has the shape, both conditions
  hold, and the one request issued is the expected one.
\<close>

theorem trigger_posts_iff_match_witness:
  "event_shaped person_started
   \<and> thread_state_is person_started ''STARTED''
   \<and> event_type_present person_started ''sdm.devices.events.CameraPerson.Person''
   \<and> posts (trigger_openhab_if_match
        \<lparr>now = sample_clock, post = yielding \<lparr>status_code = 200, resp_text = ''''\<rparr>\<rparr>
        (JObj person_started) ''http://openhab.local:8080'' ''CameraPersonDetected'' None
        ''sdm.devices.events.CameraPerson.Person'' ''STARTED'') =
      [\<lparr>url = ''http://openhab.local:8080/rest/items/CameraPersonDetected'',
        data = ''2026-11-04T08:41:05+00:00'',
        headers = [(''Content-Type'', ''text/plain''), (''Accept'', ''application/json''),
                   (''CF-Access-Client-Id'', ''''), (''CF-Access-Client-Secret'', '''')],
        timeout = 10\<rparr>]"
  using trigger_posts_iff_match [of person_started
      "\<lparr>now = sample_clock, post = yielding \<lparr>status_code = 200, resp_text = ''''\<rparr>\<rparr>"
      "''http://openhab.local:8080''" "''CameraPersonDetected''" None
      "''sdm.devices.events.CameraPerson.Person''" "''STARTED''" "JObj person_started"]
  by (simp add: event_shaped_def events_of_def thread_state_is_def event_type_present_def
      person_started_def make_request_def make_headers_def isoformat_sample_clock)

text \<open>
  C1 as worded, for every invocation, fails where \<open>events\<close> is an array holding the event type:
  \<open>event_type not in events\<close> tests the elements of a list, so the POST is issued although the
  event type is a key of no mapping.
\<close>

theorem posts_for_array_element_counterexample:
  "posts (trigger_openhab_if_match
        \<lparr>now = sample_clock, post = yielding \<lparr>status_code = 200, resp_text = ''''\<rparr>\<rparr>
        (JObj events_as_array) ''http://openhab.local:8080'' ''CameraPersonDetected'' None
        ''sdm.devices.events.CameraPerson.Person'' ''STARTED'') =
      [\<lparr>url = ''http://openhab.local:8080/rest/items/CameraPersonDetected'',
        data = ''2026-11-04T08:41:05+00:00'',
        headers = [(''Content-Type'', ''text/plain''), (''Accept'', ''application/json''),
                   (''CF-Access-Client-Id'', ''''), (''CF-Access-Client-Secret'', '''')],
        timeout = 10\<rparr>]
   \<and> \<not> event_type_present events_as_array ''sdm.devices.events.CameraPerson.Person''"
  by (simp add: posts_trigger matches_obj dict_get_def py_in_def events_as_array_def
      event_type_present_def events_of_def make_request_def make_headers_def
      isoformat_sample_clock)

text \<open>
  C2 (as amended). For every event mapping the match evaluation returns false when
  \<open>eventThreadState\<close> differs from the expected thread state, whatever the rest holds. On an
  event whose \<open>resourceUpdate\<close> and \<open>events\<close> fields are each missing or a mapping, it returns
  false when the thread state matches and the event type is not a key of
  \<open>resourceUpdate.events\<close>, and it proceeds to the trigger exactly when both conditions hold.
  When both conditions hold it proceeds to the trigger.
\<close>

theorem matches_decides:
  "(\<not> thread_state_is m ts \<longrightarrow> fst (matches (JObj m) et ts) = Inr False)
   \<and> (event_shaped m \<and> thread_state_is m ts \<and> \<not> event_type_present m et \<longrightarrow>
        fst (matches (JObj m) et ts) = Inr False)
   \<and> (event_shaped m \<longrightarrow>
        (fst (matches (JObj m) et ts) = Inr True \<longleftrightarrow>
           thread_state_is m ts \<and> event_type_present m et))
   \<and> (thread_state_is m ts \<and> event_type_present m et \<longrightarrow>
        fst (matches (JObj m) et ts) = Inr True)"
proof (intro conjI impI)
  assume "\<not> thread_state_is m ts"
  then show "fst (matches (JObj m) et ts) = Inr False"
    by (simp add: matches_obj thread_state_is_def)
next
  assume "event_shaped m \<and> thread_state_is m ts \<and> \<not> event_type_present m et"
  then show "fst (matches (JObj m) et ts) = Inr False"
    by (auto simp: event_shaped_def event_type_present_def matches_shaped)
next
  assume "event_shaped m"
  then show "fst (matches (JObj m) et ts) = Inr True \<longleftrightarrow>
      thread_state_is m ts \<and> event_type_present m et"
    by (auto simp: event_shaped_def event_type_present_def matches_shaped split: if_splits)
next
  assume "thread_state_is m ts \<and> event_type_present m et"
  then show "fst (matches (JObj m) et ts) = Inr True"
    by (simp add: matches_both)
qed

text \<open>
  C2 at the scenario of the specification: a different thread state and an absent event type
  each return false, the two conditions together proceed to the trigger.
\<close>

theorem matches_decides_witness:
  "event_shaped person_started
   \<and> thread_state_is person_started ''STARTED''
   \<and> \<not> thread_state_is person_started ''ENDED''
   \<and> event_type_present person_started ''sdm.devices.events.CameraPerson.Person''
   \<and> \<not> event_type_present person_started ''sdm.devices.events.CameraMotion.Motion''
   \<and> fst (matches (JObj person_started) ''sdm.devices.events.CameraPerson.Person'' ''ENDED'') = Inr False
   \<and> fst (matches (JObj person_started) ''sdm.devices.events.CameraMotion.Motion'' ''STARTED'') = Inr False
   \<and> fst (matches (JObj person_started) ''sdm.devices.events.CameraPerson.Person'' ''STARTED'') = Inr True"
  using matches_decides [of person_started "''ENDED''" "''sdm.devices.events.CameraPerson.Person''"]
    matches_decides [of person_started "''STARTED''" "''sdm.devices.events.CameraMotion.Motion''"]
    matches_decides [of person_started "''STARTED''" "''sdm.devices.events.CameraPerson.Person''"]
  by (simp add: event_shaped_def events_of_def thread_state_is_def event_type_present_def
      person_started_def)

text \<open>
  C2 as worded, for every event mapping, fails where \<open>resourceUpdate\<close> is \<open>null\<close>: the thread
  state matches, the event type is a key of nothing, and \<open>resource_update.get\<close> raises
  \<open>AttributeError\<close> instead of the function returning false.
\<close>

theorem matches_raises_on_null_counterexample:
  "thread_state_is resource_update_null ''STARTED''
   \<and> \<not> event_type_present resource_update_null ''sdm.devices.events.CameraPerson.Person''
   \<and> fst (matches (JObj resource_update_null) ''sdm.devices.events.CameraPerson.Person'' ''STARTED'')
       = Inl (AttributeError ''get'')
   \<and> fst (matches (JObj resource_update_null) ''sdm.devices.events.CameraPerson.Person'' ''STARTED'')
       \<noteq> Inr False"
  by (simp add: matches_obj dict_get_def resource_update_null_def thread_state_is_def
      event_type_present_def events_of_def)

text \<open>
  C3. When the \<open>resourceUpdate\<close> field is missing, or it is a mapping in which the \<open>events\<close>
  field is missing, the match evaluation raises no exception: it is the evaluation of the same
  event with the empty mapping in the place of the missing field, and the function returns
  false.
\<close>

theorem missing_fields_are_empty:
  "(map_of m ''resourceUpdate'' = None \<longrightarrow>
      matches (JObj m) et ts = matches (JObj ((''resourceUpdate'', JObj []) # m)) et ts
      \<and> fst (matches (JObj m) et ts) = Inr False
      \<and> result (trigger_openhab_if_match w (JObj m) u i t et ts) = Inr False)
   \<and> (map_of m ''resourceUpdate'' = Some (JObj ru) \<and> map_of ru ''events'' = None \<longrightarrow>
      matches (JObj m) et ts =
        matches (JObj ((''resourceUpdate'', JObj ((''events'', JObj []) # ru)) # m)) et ts
      \<and> fst (matches (JObj m) et ts) = Inr False
      \<and> result (trigger_openhab_if_match w (JObj m) u i t et ts) = Inr False)"
proof (intro conjI impI)
  assume a: "map_of m ''resourceUpdate'' = None"
  show "matches (JObj m) et ts = matches (JObj ((''resourceUpdate'', JObj []) # m)) et ts"
    using a by (simp add: matches_obj)
  show f: "fst (matches (JObj m) et ts) = Inr False"
    using a by (simp add: matches_obj dict_get_def py_in_def)
  show "result (trigger_openhab_if_match w (JObj m) u i t et ts) = Inr False"
    using trigger_no_match [OF f] by simp
next
  assume a: "map_of m ''resourceUpdate'' = Some (JObj ru) \<and> map_of ru ''events'' = None"
  show "matches (JObj m) et ts =
        matches (JObj ((''resourceUpdate'', JObj ((''events'', JObj []) # ru)) # m)) et ts"
    using a by (simp add: matches_obj dict_get_def)
  show f: "fst (matches (JObj m) et ts) = Inr False"
    using a by (simp add: matches_obj dict_get_def py_in_def)
  show "result (trigger_openhab_if_match w (JObj m) u i t et ts) = Inr False"
    using trigger_no_match [OF f] by simp
qed

text \<open>
  C3 at an event with no \<open>resourceUpdate\<close> and at one whose \<open>resourceUpdate\<close> has no
  \<open>events\<close>, both with the expected thread state.
\<close>

theorem missing_fields_are_empty_witness:
  "map_of no_resource_update ''resourceUpdate'' = None
   \<and> map_of no_events ''resourceUpdate'' = Some (JObj [(''name'', JStr ''enterprises/e/devices/d'')])
   \<and> map_of [(''name'', JStr ''enterprises/e/devices/d'' :: nat json)] ''events'' = None
   \<and> fst (matches (JObj no_resource_update) ''sdm.devices.events.CameraPerson.Person'' ''STARTED'')
        = Inr False
   \<and> fst (matches (JObj no_events) ''sdm.devices.events.CameraPerson.Person'' ''STARTED'') = Inr False
   \<and> result (trigger_openhab_if_match
        \<lparr>now = sample_clock, post = yielding \<lparr>status_code = 200, resp_text = ''''\<rparr>\<rparr>
        (JObj no_resource_update) ''http://openhab.local:8080'' ''CameraPersonDetected'' None
        ''sdm.devices.events.CameraPerson.Person'' ''STARTED'') = Inr False
   \<and> result (trigger_openhab_if_match
        \<lparr>now = sample_clock, post = yielding \<lparr>status_code = 200, resp_text = ''''\<rparr>\<rparr>
        (JObj no_events) ''http://openhab.local:8080'' ''CameraPersonDetected'' None
        ''sdm.devices.events.CameraPerson.Person'' ''STARTED'') = Inr False"
  using missing_fields_are_empty [of no_resource_update
      "''sdm.devices.events.CameraPerson.Person''" "''STARTED''"
      "\<lparr>now = sample_clock, post = yielding \<lparr>status_code = 200, resp_text = ''''\<rparr>\<rparr>"
      "''http://openhab.local:8080''" "''CameraPersonDetected''" None "[]"]
    missing_fields_are_empty [of no_events
      "''sdm.devices.events.CameraPerson.Person''" "''STARTED''"
      "\<lparr>now = sample_clock, post = yielding \<lparr>status_code = 200, resp_text = ''''\<rparr>\<rparr>"
      "''http://openhab.local:8080''" "''CameraPersonDetected''" None
      "[(''name'', JStr ''enterprises/e/devices/d'')]"]
  by (simp add: no_resource_update_def no_events_def matches_obj dict_get_def py_in_def
      trigger_openhab_if_match_def)

text \<open>
  C4 (as amended). When both match conditions hold and the POST ends in a client or server error
  status (400 to 599, the statuses on which \<open>raise_for_status\<close> raises) or in a
  \<open>RequestException\<close> raised by \<open>requests.post\<close>, the function prints the error, then the status
  code and the body when the exception carries a response, and re-raises the same exception:
  the result is that exception, never a return value, and exactly one POST was attempted.
\<close>

theorem failure_is_logged_and_reraised:
  assumes "thread_state_is m ts" and "event_type_present m et"
  shows "(post w (make_request w u i t) = Inr resp
            \<and> 400 \<le> status_code resp \<and> status_code resp < 600 \<longrightarrow>
          trigger_openhab_if_match w (JObj m) u i t et ts =
            \<lparr>result = Inl (RequestException HTTPError (Some resp)),
             log = [ErrorTriggering (RequestException HTTPError (Some resp)),
                    ResponseStatus (status_code resp), ResponseBody (resp_text resp)],
             posts = [make_request w u i t]\<rparr>)
       \<and> (post w (make_request w u i t) = Inl (RequestException k None) \<longrightarrow>
          trigger_openhab_if_match w (JObj m) u i t et ts =
            \<lparr>result = Inl (RequestException k None),
             log = [ErrorTriggering (RequestException k None)],
             posts = [make_request w u i t]\<rparr>)
       \<and> (post w (make_request w u i t) = Inl (RequestException k (Some resp)) \<longrightarrow>
          trigger_openhab_if_match w (JObj m) u i t et ts =
            \<lparr>result = Inl (RequestException k (Some resp)),
             log = [ErrorTriggering (RequestException k (Some resp)),
                    ResponseStatus (status_code resp), ResponseBody (resp_text resp)],
             posts = [make_request w u i t]\<rparr>)"
proof -
  have t: "trigger_openhab_if_match w (JObj m) u i t et ts = notify w u i t"
    using assms by (rule trigger_both)
  show ?thesis
    unfolding t by (simp add: notify_response notify_raise on_exception_def)
qed

text \<open>
  C4 at the matching scenario, with an endpoint that answers 500 and with a POST that times out.
\<close>

theorem failure_is_logged_and_reraised_witness:
  "thread_state_is person_started ''STARTED''
   \<and> event_type_present person_started ''sdm.devices.events.CameraPerson.Person''
   \<and> post (world_of (yielding \<lparr>status_code = 500, resp_text = ''Internal Server Error''\<rparr>))
        expected_request = Inr \<lparr>status_code = 500, resp_text = ''Internal Server Error''\<rparr>
   \<and> trigger_openhab_if_match
        (world_of (yielding \<lparr>status_code = 500, resp_text = ''Internal Server Error''\<rparr>))
        (JObj person_started) ''http://openhab.local:8080'' ''CameraPersonDetected'' None
        ''sdm.devices.events.CameraPerson.Person'' ''STARTED'' =
      \<lparr>result = Inl (RequestException HTTPError
                       (Some \<lparr>status_code = 500, resp_text = ''Internal Server Error''\<rparr>)),
       log = [ErrorTriggering (RequestException HTTPError
                       (Some \<lparr>status_code = 500, resp_text = ''Internal Server Error''\<rparr>)),
              ResponseStatus 500, ResponseBody ''Internal Server Error''],
       posts = [expected_request]\<rparr>
   \<and> post (world_of (failing (RequestException Timeout None))) expected_request
        = Inl (RequestException Timeout None)
   \<and> trigger_openhab_if_match (world_of (failing (RequestException Timeout None)))
        (JObj person_started) ''http://openhab.local:8080'' ''CameraPersonDetected'' None
        ''sdm.devices.events.CameraPerson.Person'' ''STARTED'' =
      \<lparr>result = Inl (RequestException Timeout None),
       log = [ErrorTriggering (RequestException Timeout None)],
       posts = [expected_request]\<rparr>"
  using failure_is_logged_and_reraised [of person_started "''STARTED''"
      "''sdm.devices.events.CameraPerson.Person''"
      "world_of (yielding \<lparr>status_code = 500, resp_text = ''Internal Server Error''\<rparr>)"
      "''http://openhab.local:8080''" "''CameraPersonDetected''" None
      "\<lparr>status_code = 500, resp_text = ''Internal Server Error''\<rparr>" Timeout]
    failure_is_logged_and_reraised [of person_started "''STARTED''"
      "''sdm.devices.events.CameraPerson.Person''"
      "world_of (failing (RequestException Timeout None))"
      "''http://openhab.local:8080''" "''CameraPersonDetected''" None
      "\<lparr>status_code = 500, resp_text = ''Internal Server Error''\<rparr>" Timeout]
  by (simp add: trigger_sample make_request_sample) (simp add: world_of_def yielding_def failing_def)

text \<open>
  C4 as worded, for any non-success status, fails at a status outside the success range that is
  no error status: on a response 304 \<open>raise_for_status\<close> raises nothing, and the function prints
  the success line and returns \<open>True\<close>.
\<close>

theorem not_modified_returns_true_counterexample:
  "thread_state_is person_started ''STARTED''
   \<and> event_type_present person_started ''sdm.devices.events.CameraPerson.Person''
   \<and> post (world_of (yielding \<lparr>status_code = 304, resp_text = ''''\<rparr>)) expected_request
        = Inr \<lparr>status_code = 304, resp_text = ''''\<rparr>
   \<and> trigger_openhab_if_match (world_of (yielding \<lparr>status_code = 304, resp_text = ''''\<rparr>))
        (JObj person_started) ''http://openhab.local:8080'' ''CameraPersonDetected'' None
        ''sdm.devices.events.CameraPerson.Person'' ''STARTED'' =
      \<lparr>result = Inr True,
       log = [Triggered ''CameraPersonDetected'' ''2026-11-04T08:41:05+00:00''],
       posts = [expected_request]\<rparr>"
proof -
  have p: "post (world_of (yielding \<lparr>status_code = 304, resp_text = ''''\<rparr>)) r
        = Inr \<lparr>status_code = 304, resp_text = ''''\<rparr>" for r
    by (simp add: world_of_def yielding_def)
  have n: "now (world_of q) = sample_clock" for q
    by (simp add: world_of_def)
  show ?thesis
    by (simp add: trigger_sample trigger_both [OF trigger_sample [THEN conjunct1]
          trigger_sample [THEN conjunct2]] notify_response [OF p] make_request_sample p n
          isoformat_sample_clock)
qed

text \<open>
  C5. When both match conditions hold and the response to the POST has a status from 200 to 299,
  the function returns \<open>True\<close>, having printed the success line and issued the one request.
\<close>

theorem success_returns_true:
  assumes "thread_state_is m ts" and "event_type_present m et"
    and "post w (make_request w u i t) = Inr resp"
    and "200 \<le> status_code resp" and "status_code resp < 300"
  shows "trigger_openhab_if_match w (JObj m) u i t et ts =
           \<lparr>result = Inr True, log = [Triggered i (isoformat (now w))],
            posts = [make_request w u i t]\<rparr>"
proof -
  have "trigger_openhab_if_match w (JObj m) u i t et ts = notify w u i t"
    using assms(1,2) by (rule trigger_both)
  then show ?thesis
    using assms(4,5) by (simp add: notify_response [OF assms(3)])
qed

text \<open>
  C5 at the matching scenario, with an endpoint that answers 200.
\<close>

theorem success_returns_true_witness:
  "thread_state_is person_started ''STARTED''
   \<and> event_type_present person_started ''sdm.devices.events.CameraPerson.Person''
   \<and> post (world_of (yielding \<lparr>status_code = 200, resp_text = ''''\<rparr>)) expected_request
        = Inr \<lparr>status_code = 200, resp_text = ''''\<rparr>
   \<and> result (trigger_openhab_if_match (world_of (yielding \<lparr>status_code = 200, resp_text = ''''\<rparr>))
        (JObj person_started) ''http://openhab.local:8080'' ''CameraPersonDetected'' None
        ''sdm.devices.events.CameraPerson.Person'' ''STARTED'') = Inr True"
proof -
  have p: "post (world_of (yielding \<lparr>status_code = 200, resp_text = ''''\<rparr>)) r
        = Inr \<lparr>status_code = 200, resp_text = ''''\<rparr>" for r
    by (simp add: world_of_def yielding_def)
  show ?thesis
    using success_returns_true [OF trigger_sample [THEN conjunct1] trigger_sample [THEN conjunct2] p,
        of "''http://openhab.local:8080''" "''CameraPersonDetected''" None]
    by (simp add: trigger_sample p)
qed

text \<open>
  C6. The body of every POST the function issues is \<open>isoformat()\<close> of the clock reading taken in
  the call, whatever the message holds, and the request declares it \<open>text/plain\<close>; on a matching
  event the bodies sent are exactly that one string.
\<close>

theorem body_is_call_time_timestamp:
  "(\<forall>r \<in> set (posts (trigger_openhab_if_match w msg u i t et ts)).
      data r = isoformat (now w) \<and> map_of (headers r) ''Content-Type'' = Some ''text/plain'')
   \<and> (thread_state_is m ts \<and> event_type_present m et \<longrightarrow>
        map data (posts (trigger_openhab_if_match w (JObj m) u i t et ts)) = [isoformat (now w)])"
  by (simp add: posts_trigger matches_both make_request_def make_headers_def)

text \<open>
  C6 at the matching scenario, whose payload carries a timestamp of 2019: the body is the clock
  reading of the call.
\<close>

theorem body_is_call_time_timestamp_witness:
  "expected_request \<in> set (posts (trigger_openhab_if_match
        (world_of (yielding \<lparr>status_code = 200, resp_text = ''''\<rparr>))
        (JObj person_started) ''http://openhab.local:8080'' ''CameraPersonDetected'' None
        ''sdm.devices.events.CameraPerson.Person'' ''STARTED''))
   \<and> map_of person_started ''timestamp'' = Some (JStr ''2019-01-01T00:00:01Z'')
   \<and> isoformat (now (world_of (yielding \<lparr>status_code = 200, resp_text = ''''\<rparr>)))
        = ''2026-11-04T08:41:05+00:00''
   \<and> data expected_request = ''2026-11-04T08:41:05+00:00''
   \<and> map_of (headers expected_request) ''Content-Type'' = Some ''text/plain''"
  using body_is_call_time_timestamp [of
      "world_of (yielding \<lparr>status_code = 200, resp_text = ''''\<rparr>)"
      "JObj person_started" "''http://openhab.local:8080''" "''CameraPersonDetected''" None
      "''sdm.devices.events.CameraPerson.Person''" "''STARTED''" person_started]
  by (simp add: posts_sample) (simp add: world_of_def isoformat_sample_clock person_started_def)

text \<open>
  C7. The headers of every POST the function issues are \<open>Content-Type: text/plain\<close>,
  \<open>Accept: application/json\<close> and the two access-control headers with empty values, followed by
  \<open>Authorization: Bearer <token>\<close> when a token is configured, and by nothing when none is: the
  \<open>Authorization\<close> header is there if and only if the token is neither \<open>None\<close> nor empty, which is
  the test \<open>if openhab_token:\<close> of the source.
\<close>

theorem headers_are_exact:
  "\<forall>r \<in> set (posts (trigger_openhab_if_match w msg u i t et ts)).
      (t = None \<or> t = Some [] \<longrightarrow>
         headers r = [(''Content-Type'', ''text/plain''), (''Accept'', ''application/json''),
                      (''CF-Access-Client-Id'', ''''), (''CF-Access-Client-Secret'', '''')])
    \<and> (t = Some tok \<and> tok \<noteq> [] \<longrightarrow>
         headers r = [(''Content-Type'', ''text/plain''), (''Accept'', ''application/json''),
                      (''CF-Access-Client-Id'', ''''), (''CF-Access-Client-Secret'', ''''),
                      (''Authorization'', ''Bearer '' @ tok)])
    \<and> (''Authorization'' \<in> fst ` set (headers r) \<longleftrightarrow> t \<noteq> None \<and> t \<noteq> Some [])"
proof (intro ballI)
  fix r
  assume "r \<in> set (posts (trigger_openhab_if_match w msg u i t et ts))"
  then have r: "headers r = make_headers t"
    by (simp add: posts_trigger make_request_def split: if_splits)
  show "(t = None \<or> t = Some [] \<longrightarrow>
         headers r = [(''Content-Type'', ''text/plain''), (''Accept'', ''application/json''),
                      (''CF-Access-Client-Id'', ''''), (''CF-Access-Client-Secret'', '''')])
    \<and> (t = Some tok \<and> tok \<noteq> [] \<longrightarrow>
         headers r = [(''Content-Type'', ''text/plain''), (''Accept'', ''application/json''),
                      (''CF-Access-Client-Id'', ''''), (''CF-Access-Client-Secret'', ''''),
                      (''Authorization'', ''Bearer '' @ tok)])
    \<and> (''Authorization'' \<in> fst ` set (headers r) \<longleftrightarrow> t \<noteq> None \<and> t \<noteq> Some [])"
    unfolding r by (simp add: authorization_in_headers) (auto simp: make_headers_def)
qed

text \<open>
  C7 at the matching scenario, without a token and with the token \<open>s3cret\<close>.
\<close>

theorem headers_are_exact_witness:
  "expected_request \<in> set (posts (trigger_openhab_if_match
        (world_of (yielding \<lparr>status_code = 200, resp_text = ''''\<rparr>))
        (JObj person_started) ''http://openhab.local:8080'' ''CameraPersonDetected'' None
        ''sdm.devices.events.CameraPerson.Person'' ''STARTED''))
   \<and> headers expected_request =
        [(''Content-Type'', ''text/plain''), (''Accept'', ''application/json''),
         (''CF-Access-Client-Id'', ''''), (''CF-Access-Client-Secret'', '''')]
   \<and> map headers (posts (trigger_openhab_if_match
        (world_of (yielding \<lparr>status_code = 200, resp_text = ''''\<rparr>))
        (JObj person_started) ''http://openhab.local:8080'' ''CameraPersonDetected''
        (Some ''s3cret'') ''sdm.devices.events.CameraPerson.Person'' ''STARTED'')) =
        [[(''Content-Type'', ''text/plain''), (''Accept'', ''application/json''),
          (''CF-Access-Client-Id'', ''''), (''CF-Access-Client-Secret'', ''''),
          (''Authorization'', ''Bearer s3cret'')]]"
  using headers_are_exact [of
      "world_of (yielding \<lparr>status_code = 200, resp_text = ''''\<rparr>)"
      "JObj person_started" "''http://openhab.local:8080''" "''CameraPersonDetected''" None
      "''sdm.devices.events.CameraPerson.Person''" "''STARTED''" "''s3cret''"]
    headers_are_exact [of
      "world_of (yielding \<lparr>status_code = 200, resp_text = ''''\<rparr>)"
      "JObj person_started" "''http://openhab.local:8080''" "''CameraPersonDetected''"
      "Some ''s3cret''" "''sdm.devices.events.CameraPerson.Person''" "''STARTED''" "''s3cret''"]
  by (simp add: posts_sample) (simp add: posts_trigger matches_both trigger_sample)

text \<open>
  C8. The URL of every POST the function issues is the base URL, then \<open>/rest/items/\<close>, then the
  item name.
\<close>

theorem url_is_base_rest_items_item:
  "\<forall>r \<in> set (posts (trigger_openhab_if_match w msg u i t et ts)).
      url r = u @ ''/rest/items/'' @ i"
  by (simp add: posts_trigger make_request_def)

text \<open>
  C8 at the matching scenario.
\<close>

theorem url_is_base_rest_items_item_witness:
  "expected_request \<in> set (posts (trigger_openhab_if_match
        (world_of (yielding \<lparr>status_code = 200, resp_text = ''''\<rparr>))
        (JObj person_started) ''http://openhab.local:8080'' ''CameraPersonDetected'' None
        ''sdm.devices.events.CameraPerson.Person'' ''STARTED''))
   \<and> url expected_request = ''http://openhab.local:8080/rest/items/CameraPersonDetected''"
  using url_is_base_rest_items_item [of
      "world_of (yielding \<lparr>status_code = 200, resp_text = ''''\<rparr>)"
      "JObj person_started" "''http://openhab.local:8080''" "''CameraPersonDetected''" None
      "''sdm.devices.events.CameraPerson.Person''" "''STARTED''"]
  by (simp add: posts_sample)

text \<open>
  C9. When the envelope holds \<open>message.data\<close> and the base64 decoding, the decoding of the bytes
  or the JSON parsing raises, the handler prints the error and re-raises it, and nothing else has
  happened: no other line is printed and no POST is issued.
\<close>

theorem malformed_envelope_propagates:
  assumes "getitem ev ''message'' = Inr msg" and "getitem msg ''data'' = Inr d"
  shows "(b64decode lib d = Inl e \<longrightarrow>
            handle_camera_event_pubsub w lib ev =
              \<lparr>result = Inl e, log = [ErrorProcessing e], posts = []\<rparr>)
       \<and> (b64decode lib d = Inr raw \<and> bytes_decode lib raw = Inl e \<longrightarrow>
            handle_camera_event_pubsub w lib ev =
              \<lparr>result = Inl e, log = [ErrorProcessing e], posts = []\<rparr>)
       \<and> (b64decode lib d = Inr raw \<and> bytes_decode lib raw = Inr txt
            \<and> json_loads lib txt = Inl e \<longrightarrow>
            handle_camera_event_pubsub w lib ev =
              \<lparr>result = Inl e, log = [ErrorProcessing e], posts = []\<rparr>)"
  using assms by (simp add: handle_camera_event_pubsub_def decode_message_def)

text \<open>
  C9 at an envelope whose base64 decoding fails, and at one whose JSON parsing fails.
\<close>

theorem malformed_envelope_propagates_witness:
  "getitem sample_envelope ''message'' = Inr (JObj [(''data'', JStr ''eyJ9'')])
   \<and> getitem (JObj [(''data'', JStr ''eyJ9'' :: nat json)]) ''data'' = Inr (JStr ''eyJ9'')
   \<and> b64decode bad_base64 (JStr ''eyJ9'') = Inl (ValueError ''Incorrect padding'')
   \<and> handle_camera_event_pubsub (world_of (yielding \<lparr>status_code = 200, resp_text = ''''\<rparr>))
        bad_base64 sample_envelope =
      \<lparr>result = Inl (ValueError ''Incorrect padding''),
       log = [ErrorProcessing (ValueError ''Incorrect padding'')], posts = []\<rparr>
   \<and> b64decode bad_json (JStr ''eyJ9'') = Inr []
   \<and> bytes_decode bad_json [] = Inr ''{''
   \<and> json_loads bad_json ''{''
        = Inl (ValueError ''Expecting property name enclosed in double quotes'')
   \<and> handle_camera_event_pubsub (world_of (yielding \<lparr>status_code = 200, resp_text = ''''\<rparr>))
        bad_json sample_envelope =
      \<lparr>result = Inl (ValueError ''Expecting property name enclosed in double quotes''),
       log = [ErrorProcessing (ValueError ''Expecting property name enclosed in double quotes'')],
       posts = []\<rparr>"
proof -
  have g1: "getitem sample_envelope ''message'' = Inr (JObj [(''data'', JStr ''eyJ9'')])"
    by (simp add: getitem_def sample_envelope_def)
  have g2: "getitem (JObj [(''data'', JStr ''eyJ9'' :: nat json)]) ''data'' = Inr (JStr ''eyJ9'')"
    by (simp add: getitem_def)
  show ?thesis
    using malformed_envelope_propagates [OF g1 g2, of bad_base64 "ValueError ''Incorrect padding''"
        "world_of (yielding \<lparr>status_code = 200, resp_text = ''''\<rparr>)" "[]" "''{''"]
      malformed_envelope_propagates [OF g1 g2, of bad_json
        "ValueError ''Expecting property name enclosed in double quotes''"
        "world_of (yielding \<lparr>status_code = 200, resp_text = ''''\<rparr>)" "[]" "''{''"]
    by (simp add: g1 g2 bad_base64_def bad_json_def yielding_def failing_def)
qed

text \<open>
  C10. With the token \<open>None\<close> or the empty string, no POST the function issues has an
  \<open>Authorization\<close> header; and no POST of the Pub/Sub handler, whose token is the empty string,
  has one.
\<close>

theorem falsy_token_sends_no_authorization:
  "(t = None \<or> t = Some [] \<longrightarrow>
      (\<forall>r \<in> set (posts (trigger_openhab_if_match w msg u i t et ts)).
         ''Authorization'' \<notin> fst ` set (headers r)))
   \<and> (\<forall>r \<in> set (posts (handle_camera_event_pubsub w lib ev)).
         ''Authorization'' \<notin> fst ` set (headers r))"
  by (auto simp: posts_handle posts_trigger make_request_def make_headers_def
      split: sum.splits if_splits)

text \<open>
  C10 at the matching scenario with the empty token, and at the handler on an envelope that
  decodes to it.
\<close>

theorem falsy_token_sends_no_authorization_witness:
  "expected_request \<in> set (posts (trigger_openhab_if_match
        (world_of (yielding \<lparr>status_code = 200, resp_text = ''''\<rparr>))
        (JObj person_started) ''http://openhab.local:8080'' ''CameraPersonDetected'' (Some '''')
        ''sdm.devices.events.CameraPerson.Person'' ''STARTED''))
   \<and> ''Authorization'' \<notin> fst ` set (headers expected_request)
   \<and> handler_request \<in> set (posts (handle_camera_event_pubsub
        (world_of (yielding \<lparr>status_code = 200, resp_text = ''''\<rparr>)) good_codec sample_envelope))
   \<and> ''Authorization'' \<notin> fst ` set (headers handler_request)"
  using falsy_token_sends_no_authorization [of "Some ''''"
      "world_of (yielding \<lparr>status_code = 200, resp_text = ''''\<rparr>)"
      "JObj person_started" "''http://openhab.local:8080''" "''CameraPersonDetected''"
      "''sdm.devices.events.CameraPerson.Person''" "''STARTED''" good_codec sample_envelope]
  by (simp add: posts_handle_sample)
    (simp add: posts_trigger matches_both trigger_sample make_request_def make_headers_def
      world_of_def expected_request_def isoformat_sample_clock)

end
